theory Spec2Isabelle
  imports Complex_Main "HOL-Library.Multiset"
begin

section \<open>Numbers\<close>

text \<open>
  The program computes with Python floats. They are modelled as exact rationals: every
  arithmetic operation is the exact one, and Python's \<^verbatim>\<open>round(x, n)\<close> is rounding of the
  exact value to \<open>n\<close> decimals, ties going to the even neighbour (what Python does on the
  exact binary value). Representation error of binary doubles, infinities and NaN are not
  part of this model. Float division by zero raises in Python and is an error value here.
\<close>

definition round_half_even :: "rat \<Rightarrow> int" where
  "round_half_even x =
     (let f = \<lfloor>x\<rfloor>; d = x - of_int f
      in if d < 1 / 2 then f
         else if 1 / 2 < d then f + 1
         else if even f then f else f + 1)"

definition py_round :: "rat \<Rightarrow> nat \<Rightarrow> rat" where
  "py_round x n = of_int (round_half_even (x * 10 ^ n)) / 10 ^ n"

datatype error = KeyError string | ValueError string | ZeroDivisionError

definition lookup :: "(string \<times> 'a) list \<Rightarrow> string \<Rightarrow> error + 'a" where
  "lookup d k = (case map_of d k of None \<Rightarrow> Inl (KeyError k) | Some v \<Rightarrow> Inr v)"

definition py_div :: "rat \<Rightarrow> rat \<Rightarrow> error + rat" where
  "py_div a b = (if b = 0 then Inl ZeroDivisionError else Inr (a / b))"

section \<open>data_loader.py\<close>

record VehicleParams =
  glider_manufacturing_kg :: rat
  powertrain_manufacturing_kg :: rat
  battery_manufacturing_per_kwh :: rat
  battery_capacity_kwh :: rat
  energy_consumption_per_100km :: rat
  fuel_type :: string
  disposal_kg :: rat
  battery_eol_factor :: rat

definition FUEL_EMISSION_FACTORS :: "(string \<times> rat) list" where
  "FUEL_EMISSION_FACTORS = [(''petrol'', 2.392), (''diesel'', 2.640)]"

definition VEHICLE_PARAMS :: "(string \<times> VehicleParams) list" where
  "VEHICLE_PARAMS =
    [(''BEV'', \<lparr>glider_manufacturing_kg = 6500, powertrain_manufacturing_kg = 400,
        battery_manufacturing_per_kwh = 150, battery_capacity_kwh = 60,
        energy_consumption_per_100km = 18.0, fuel_type = ''electricity'',
        disposal_kg = 200, battery_eol_factor = 20\<rparr>),
     (''PHEV'', \<lparr>glider_manufacturing_kg = 7000, powertrain_manufacturing_kg = 800,
        battery_manufacturing_per_kwh = 150, battery_capacity_kwh = 14,
        energy_consumption_per_100km = 5.5, fuel_type = ''hybrid_petrol'',
        disposal_kg = 250, battery_eol_factor = 20\<rparr>),
     (''HEV'', \<lparr>glider_manufacturing_kg = 7200, powertrain_manufacturing_kg = 900,
        battery_manufacturing_per_kwh = 150, battery_capacity_kwh = 1.5,
        energy_consumption_per_100km = 5.0, fuel_type = ''hybrid_petrol'',
        disposal_kg = 280, battery_eol_factor = 20\<rparr>),
     (''ICEV-p'', \<lparr>glider_manufacturing_kg = 6800, powertrain_manufacturing_kg = 1500,
        battery_manufacturing_per_kwh = 0, battery_capacity_kwh = 0,
        energy_consumption_per_100km = 7.5, fuel_type = ''petrol'',
        disposal_kg = 350, battery_eol_factor = 0\<rparr>),
     (''ICEV-d'', \<lparr>glider_manufacturing_kg = 7000, powertrain_manufacturing_kg = 1700,
        battery_manufacturing_per_kwh = 0, battery_capacity_kwh = 0,
        energy_consumption_per_100km = 6.0, fuel_type = ''diesel'',
        disposal_kg = 370, battery_eol_factor = 0\<rparr>)]"

definition SIZE_MULTIPLIERS :: "(string \<times> rat) list" where
  "SIZE_MULTIPLIERS = [(''small'', 0.85), (''medium'', 1.00), (''large'', 1.20)]"

definition PHEV_ELECTRIC_FRACTION :: rat where
  "PHEV_ELECTRIC_FRACTION = 0.42"

definition GREENWASHING_OPERATIONAL_THRESHOLD_PCT :: rat where
  "GREENWASHING_OPERATIONAL_THRESHOLD_PCT = 0.05"

definition GREENWASHING_TOTAL_THRESHOLD_KG :: rat where
  "GREENWASHING_TOTAL_THRESHOLD_KG = 15000"

section \<open>schemas.py\<close>

text \<open>
  The two reason texts of the greenwashing check are f-strings. A reason is modelled by
  the template that was chosen together with the values formatted into it (vehicle type,
  use-phase kg, operational percentage, total kg); the rendering of numbers as text is
  not modelled.
\<close>

datatype reason_text =
  MisleadingLabel string rat rat rat
| GridAdvocacy

text \<open>The field \<^verbatim>\<open>total\<close> is named \<open>total'\<close>: \<open>total\<close> is a constant of HOL.\<close>

record LifecycleResult =
  vehicle_type :: string
  manufacturing :: rat
  use_phase :: rat
  disposal :: rat
  total' :: rat
  total_km :: rat
  per_km :: rat
  greenwashing_flag :: bool
  greenwashing_reason :: "reason_text option"

section \<open>carbon_engine.py\<close>

definition calculate_use_phase :: "VehicleParams \<Rightarrow> rat \<Rightarrow> rat \<Rightarrow> rat \<Rightarrow> error + rat" where
  "calculate_use_phase params tkm grid_factor size_mult =
     (let fuel = fuel_type params;
          consumption = energy_consumption_per_100km params * size_mult
      in if fuel = ''electricity'' then
           (let kwh_total = (consumption / 100) * tkm in Inr (kwh_total * grid_factor))
         else if fuel = ''petrol'' then
           (let litres_total = (consumption / 100) * tkm
            in case lookup FUEL_EMISSION_FACTORS ''petrol'' of
                 Inl e \<Rightarrow> Inl e | Inr f \<Rightarrow> Inr (litres_total * f))
         else if fuel = ''diesel'' then
           (let litres_total = (consumption / 100) * tkm
            in case lookup FUEL_EMISSION_FACTORS ''diesel'' of
                 Inl e \<Rightarrow> Inl e | Inr f \<Rightarrow> Inr (litres_total * f))
         else if fuel = ''hybrid_petrol'' then
           (let electric_fraction =
                  (if battery_capacity_kwh params > 14 then PHEV_ELECTRIC_FRACTION else 0.05);
                electric_km = tkm * electric_fraction;
                fossil_km = tkm * (1 - electric_fraction);
                electric_emissions =
                  (if battery_capacity_kwh params > 14
                   then (let kwh_electric = (18.0 * size_mult / 100) * electric_km
                         in kwh_electric * grid_factor)
                   else 0)
            in case lookup FUEL_EMISSION_FACTORS ''petrol'' of
                 Inl e \<Rightarrow> Inl e
               | Inr f \<Rightarrow>
                   (let fossil_emissions = (consumption / 100) * fossil_km * f
                    in Inr (electric_emissions + fossil_emissions)))
         else Inl (ValueError (''Unknown fuel type: '' @ fuel)))"

definition calculate_disposal :: "VehicleParams \<Rightarrow> rat \<Rightarrow> rat \<Rightarrow> rat" where
  "calculate_disposal params battery_kwh_actual size_mult =
     (let body_disposal = disposal_kg params * size_mult;
          battery_eol = battery_kwh_actual * battery_eol_factor params
      in body_disposal + battery_eol)"

definition check_greenwashing :: "rat \<Rightarrow> rat \<Rightarrow> string \<Rightarrow> bool \<times> reason_text option" where
  "check_greenwashing use_kg total_kg vt =
     (if total_kg = 0 then (False, None)
      else
        (let operational_fraction = use_kg / total_kg
         in if operational_fraction < GREENWASHING_OPERATIONAL_THRESHOLD_PCT
               \<and> total_kg > GREENWASHING_TOTAL_THRESHOLD_KG
            then (True, Some (MisleadingLabel vt use_kg (operational_fraction * 100) total_kg))
            else if vt = ''BEV'' \<and> operational_fraction > 0.70
            then (True, Some GridAdvocacy)
            else (False, None)))"

definition calculate_lifecycle ::
    "string \<Rightarrow> rat \<Rightarrow> int \<Rightarrow> rat \<Rightarrow> string \<Rightarrow> error + LifecycleResult" where
  "calculate_lifecycle vt annual_km years grid_factor vehicle_size =
     (case lookup VEHICLE_PARAMS vt of
        Inl e \<Rightarrow> Inl e
      | Inr params \<Rightarrow>
     (case lookup SIZE_MULTIPLIERS vehicle_size of
        Inl e \<Rightarrow> Inl e
      | Inr size_mult \<Rightarrow>
     (let tkm = annual_km * of_int years;
          glider_kg = glider_manufacturing_kg params * size_mult;
          powertrain_kg = powertrain_manufacturing_kg params * size_mult;
          battery_kwh =
            (if battery_capacity_kwh params > 0 then battery_capacity_kwh params * size_mult
             else 0);
          battery_kg = battery_kwh * battery_manufacturing_per_kwh params;
          manufacturing_kg = glider_kg + powertrain_kg + battery_kg
      in case calculate_use_phase params tkm grid_factor size_mult of
           Inl e \<Rightarrow> Inl e
         | Inr use_kg \<Rightarrow>
     (let disp_kg = calculate_disposal params battery_kwh size_mult;
          total_kg = manufacturing_kg + use_kg + disp_kg;
          per_km_g = (if tkm > 0 then total_kg / tkm * 1000 else 0);
          gw = check_greenwashing use_kg total_kg vt
      in Inr \<lparr>vehicle_type = vt,
              manufacturing = py_round manufacturing_kg 1,
              use_phase = py_round use_kg 1,
              disposal = py_round disp_kg 1,
              total' = py_round total_kg 1,
              total_km = py_round tkm 0,
              per_km = py_round per_km_g 1,
              greenwashing_flag = fst gw,
              greenwashing_reason = snd gw\<rparr>))))"

section \<open>break_even.py\<close>

text \<open>
  Both result records of schemas.py have a field \<^verbatim>\<open>best_vehicle\<close>; the one of
  \<^verbatim>\<open>BreakEvenComparison\<close> is named \<open>cmp_best_vehicle\<close> here. A break-even year is an index
  of \<^verbatim>\<open>enumerate\<close>, a natural number; the ownership period \<^verbatim>\<open>years\<close> is a Python int.
\<close>

record BreakEvenPair =
  year :: "nat option"
  best_vehicle :: string
  comparison_vehicle :: string
  yearly_best_cumulative :: "rat list"
  yearly_comparison_cumulative :: "rat list"

record BreakEvenComparison =
  cmp_best_vehicle :: string
  years_range :: "int list"
  pairs :: "BreakEvenPair list"

definition build_cumulative_curve :: "LifecycleResult \<Rightarrow> int \<Rightarrow> rat list" where
  "build_cumulative_curve result years =
     (let upfront = manufacturing result + disposal result;
          annual = (if years > 0 then use_phase result / of_int years else 0)
      in map (\<lambda>y. py_round (upfront + annual * of_int y) 1) [0..years])"

text \<open>The loop over \<^verbatim>\<open>enumerate(zip(best_curve, comparison_curve))\<close>, from index \<open>i\<close> on.\<close>

fun scan_years :: "nat \<Rightarrow> (rat \<times> rat) list \<Rightarrow> nat option" where
  "scan_years i [] = None"
| "scan_years i ((b, c) # rest) = (if b \<le> c then Some i else scan_years (Suc i) rest)"

definition find_break_even_year :: "rat list \<Rightarrow> rat list \<Rightarrow> nat option" where
  "find_break_even_year best_curve comparison_curve =
     scan_years 0 (zip best_curve comparison_curve)"

text \<open>
  \<^verbatim>\<open>sorted(results, key=...)\<close> is a stable sort, as \<^const>\<open>sort_key\<close> is. The sorted list
  of two or more results is not empty, so the first branch of the case below is never
  taken.
\<close>

definition compare_best_vs_all :: "LifecycleResult list \<Rightarrow> int \<Rightarrow> BreakEvenComparison option" where
  "compare_best_vs_all results years =
     (if length results < 2 then None
      else
        (case sort_key total' results of
           [] \<Rightarrow> None
         | best # others \<Rightarrow>
             (let best_curve = build_cumulative_curve best years
              in Some \<lparr>cmp_best_vehicle = vehicle_type best,
                       years_range = [0..years],
                       pairs =
                         map (\<lambda>other.
                                (let comparison_curve = build_cumulative_curve other years;
                                     break_even_year =
                                       find_break_even_year best_curve comparison_curve
                                 in \<lparr>year = break_even_year,
                                      best_vehicle = vehicle_type best,
                                      comparison_vehicle = vehicle_type other,
                                      yearly_best_cumulative = best_curve,
                                      yearly_comparison_cumulative = comparison_curve\<rparr>))
                             others\<rparr>)))"

section \<open>recommendation_logic.py\<close>

text \<open>
  The reasoning text is a list of sentences joined by spaces. Each sentence is modelled by
  its template and the values formatted into it, in the order the source appends them.
\<close>

datatype reasoning_line =
  LowestLine string rat rat
| SavingsLine rat rat string
| ManufacturingNote
| UsePhaseNote
| GreenwashingAlert "reason_text option"

record RecommendationResult =
  recommended_vehicle :: string
  total_emissions_kg :: rat
  confidence_percentage :: rat
  savings_vs_worst_kg :: rat
  savings_vs_worst_pct :: rat
  reasoning :: "reasoning_line list"

definition build_reasoning ::
    "LifecycleResult \<Rightarrow> LifecycleResult \<Rightarrow> LifecycleResult list \<Rightarrow> rat \<Rightarrow> rat
      \<Rightarrow> reasoning_line list" where
  "build_reasoning best worst sorted_results savings_kg savings_pct =
     [LowestLine (vehicle_type best) (total' best) (per_km best)]
     @ (if savings_pct > 0 \<and> vehicle_type worst \<noteq> vehicle_type best
        then [SavingsLine savings_kg savings_pct (vehicle_type worst)] else [])
     @ (if manufacturing best > use_phase best then [ManufacturingNote]
        else if use_phase best > manufacturing best * 2 then [UsePhaseNote]
        else [])
     @ (if greenwashing_flag best then [GreenwashingAlert (greenwashing_reason best)] else [])"

definition recommend_vehicle :: "LifecycleResult list \<Rightarrow> error + RecommendationResult" where
  "recommend_vehicle results =
     (if results = [] then Inl (ValueError ''No results to evaluate'')
      else
        (let sorted_results = sort_key total' results;
             best = hd sorted_results;
             worst = last sorted_results
         in case (if length sorted_results > 1
                  then (let second_best = sorted_results ! 1
                        in case py_div (total' second_best - total' best) (total' second_best) of
                             Inl e \<Rightarrow> Inl e
                           | Inr q \<Rightarrow> (let gap_pct = q * 100
                                       in Inr (min 99.0 (50.0 + gap_pct * 1.65))))
                  else Inr 99.0) of
              Inl e \<Rightarrow> Inl e
            | Inr confidence \<Rightarrow>
                (let savings_kg = total' worst - total' best;
                     savings_pct =
                       (if total' worst > 0 then savings_kg / total' worst * 100 else 0);
                     reasoning_text =
                       build_reasoning best worst sorted_results savings_kg savings_pct
                 in Inr \<lparr>recommended_vehicle = vehicle_type best,
                         total_emissions_kg = total' best,
                         confidence_percentage = py_round confidence 1,
                         savings_vs_worst_kg = py_round savings_kg 1,
                         savings_vs_worst_pct = py_round savings_pct 1,
                         reasoning = reasoning_text\<rparr>)))"

section \<open>Concrete inputs\<close>

text \<open>
  Values used as concrete inputs below: the results of the calculation for four vehicles
  at 15000 km a year over 10 years, grid factor 0.233, size medium; the comparison of the
  first two; and results whose totals are zero or negative.
\<close>

definition scenario_A :: LifecycleResult where
  "scenario_A =
     \<lparr>vehicle_type = ''BEV'', manufacturing = 15900, use_phase = 6291.0, disposal = 1400,
      total' = 23591.0, total_km = 150000, per_km = 157.3,
      greenwashing_flag = False, greenwashing_reason = None\<rparr>"

definition scenario_B :: LifecycleResult where
  "scenario_B =
     \<lparr>vehicle_type = ''ICEV-p'', manufacturing = 8300, use_phase = 26910.0, disposal = 350,
      total' = 35560.0, total_km = 150000, per_km = 237.1,
      greenwashing_flag = False, greenwashing_reason = None\<rparr>"

definition scenario_C_pair :: BreakEvenPair where
  "scenario_C_pair =
     \<lparr>year = Some 5, best_vehicle = ''BEV'', comparison_vehicle = ''ICEV-p'',
      yearly_best_cumulative =
        [17300, 17929.1, 18558.2, 19187.3, 19816.4, 20445.5, 21074.6, 21703.7,
         22332.8, 22961.9, 23591],
      yearly_comparison_cumulative =
        [8650, 11341, 14032, 16723, 19414, 22105, 24796, 27487, 30178, 32869, 35560]\<rparr>"

definition scenario_C_comparison :: BreakEvenComparison where
  "scenario_C_comparison =
     \<lparr>cmp_best_vehicle = ''BEV'', years_range = [0, 1, 2, 3, 4, 5, 6, 7, 8, 9, 10],
      pairs = [scenario_C_pair]\<rparr>"

definition hev_medium :: LifecycleResult where
  "hev_medium =
     \<lparr>vehicle_type = ''HEV'', manufacturing = 8325, use_phase = 17043, disposal = 310,
      total' = 25678, total_km = 150000, per_km = 171.2,
      greenwashing_flag = False, greenwashing_reason = None\<rparr>"

definition phev_medium :: LifecycleResult where
  "phev_medium =
     \<lparr>vehicle_type = ''PHEV'', manufacturing = 9900, use_phase = 18747.3, disposal = 530,
      total' = 29177.3, total_km = 150000, per_km = 194.5,
      greenwashing_flag = False, greenwashing_reason = None\<rparr>"

definition zero_total :: "string \<Rightarrow> LifecycleResult" where
  "zero_total vt =
     \<lparr>vehicle_type = vt, manufacturing = 0, use_phase = 0, disposal = 0,
      total' = 0, total_km = 0, per_km = 0,
      greenwashing_flag = False, greenwashing_reason = None\<rparr>"


section \<open>Evaluation on numerals\<close>

lemma floor_rat_numeral_div:
  "\<lfloor>numeral a / numeral b :: rat\<rfloor> = numeral a div numeral b"
  by (metis floor_divide_of_int_eq of_int_numeral)

lemmas table_defs =
  lookup_def VEHICLE_PARAMS_def SIZE_MULTIPLIERS_def FUEL_EMISSION_FACTORS_def
  PHEV_ELECTRIC_FRACTION_def GREENWASHING_OPERATIONAL_THRESHOLD_PCT_def
  GREENWASHING_TOTAL_THRESHOLD_KG_def

lemmas round_defs = py_round_def round_half_even_def Let_def floor_rat_numeral_div

lemmas engine_defs =
  calculate_lifecycle_def calculate_use_phase_def calculate_disposal_def
  check_greenwashing_def

section \<open>Rounding\<close>










section \<open>Scenario A\<close>

lemma scenario_A_result:
  "calculate_lifecycle ''BEV'' 15000 10 0.233 ''medium'' =
     Inr \<lparr>vehicle_type = ''BEV'', manufacturing = 15900, use_phase = 6291.0,
           disposal = 1400, total' = 23591.0, total_km = 150000, per_km = 157.3,
           greenwashing_flag = False, greenwashing_reason = None\<rparr>"
  by (simp add: engine_defs table_defs round_defs)

text \<open>
  C1 (as amended). For vehicle type BEV, 15000 km a year, 10 years, grid factor 0.233 and
  size medium, the calculation returns manufacturing 15900 kg, use phase 6291.0 kg,
  disposal 1400 kg, total 23591.0 kg, 150000 km, no greenwashing flag and no reason, and
  157.3 g/km: 23591 kg over 150000 km, times 1000.
\<close>

theorem calculate_scenario_A:
  "calculate_lifecycle ''BEV'' 15000 10 0.233 ''medium'' =
     Inr \<lparr>vehicle_type = ''BEV'', manufacturing = 15900, use_phase = 6291.0,
           disposal = 1400, total' = 23591.0, total_km = 150000, per_km = 157.3,
           greenwashing_flag = False, greenwashing_reason = None\<rparr>"
  by (rule scenario_A_result)

text \<open>
  C1 with a per-km figure of about 15.7 g/km does not hold: the figure that is returned
  is not within 1 g/km of 15.7.
\<close>

theorem scenario_A_per_km_counterexample:
  "\<not> \<bar>per_km (projr (calculate_lifecycle ''BEV'' 15000 10 0.233 ''medium'')) - 15.7\<bar> \<le> 1"
  using scenario_A_result by simp

section \<open>The plug-in branch of the use phase\<close>

text \<open>
  C2. Two runs for vehicle type PHEV that differ in the grid factor only return the same
  value, whatever the other arguments are. The battery capacity of the PHEV entry is
  exactly 14, its use phase is the non-plug-in one (electric fraction 0.05, no electric
  emissions, petrol on the other 0.95 of the distance), and no entry of the parameter
  table is a hybrid with a capacity above 14.
\<close>

theorem phev_ignores_grid_factor:
  "calculate_lifecycle ''PHEV'' annual_km years g1 vehicle_size =
     calculate_lifecycle ''PHEV'' annual_km years g2 vehicle_size
   \<and> battery_capacity_kwh (projr (lookup VEHICLE_PARAMS ''PHEV'')) = 14
   \<and> calculate_use_phase (projr (lookup VEHICLE_PARAMS ''PHEV'')) tkm g size_mult =
       Inr ((5.5 * size_mult / 100) * (tkm * (1 - 0.05)) * 2.392)
   \<and> filter (\<lambda>(vt, p). fuel_type p = ''hybrid_petrol'' \<and> battery_capacity_kwh p > 14)
        VEHICLE_PARAMS = []"
  by (simp add: calculate_lifecycle_def lookup_def VEHICLE_PARAMS_def calculate_use_phase_def
        FUEL_EMISSION_FACTORS_def Let_def split: sum.splits)

section \<open>Scenario C\<close>

lemma scenario_B_result:
  "calculate_lifecycle ''ICEV-p'' 15000 10 0.233 ''medium'' =
     Inr \<lparr>vehicle_type = ''ICEV-p'', manufacturing = 8300, use_phase = 26910.0,
           disposal = 350, total' = 35560.0, total_km = 150000, per_km = 237.1,
           greenwashing_flag = False, greenwashing_reason = None\<rparr>"
  by (simp add: engine_defs table_defs round_defs)

lemmas break_even_defs =
  compare_best_vs_all_def build_cumulative_curve_def find_break_even_year_def upto_rec1

lemma scenario_C_compare:
  "compare_best_vs_all
     [\<lparr>vehicle_type = ''BEV'', manufacturing = 15900, use_phase = 6291.0,
        disposal = 1400, total' = 23591.0, total_km = 150000, per_km = 157.3,
        greenwashing_flag = False, greenwashing_reason = None\<rparr>,
      \<lparr>vehicle_type = ''ICEV-p'', manufacturing = 8300, use_phase = 26910.0,
        disposal = 350, total' = 35560.0, total_km = 150000, per_km = 237.1,
        greenwashing_flag = False, greenwashing_reason = None\<rparr>] 10 =
   Some \<lparr>cmp_best_vehicle = ''BEV'',
          years_range = [0, 1, 2, 3, 4, 5, 6, 7, 8, 9, 10],
          pairs =
            [\<lparr>year = Some 5, best_vehicle = ''BEV'', comparison_vehicle = ''ICEV-p'',
              yearly_best_cumulative =
                [17300, 17929.1, 18558.2, 19187.3, 19816.4, 20445.5, 21074.6, 21703.7,
                 22332.8, 22961.9, 23591],
              yearly_comparison_cumulative =
                [8650, 11341, 14032, 16723, 19414, 22105, 24796, 27487, 30178, 32869,
                 35560]\<rparr>]\<rparr>"
  by (simp add: break_even_defs round_defs)

lemma compare_two_swap:
  "total' a < total' b \<Longrightarrow> compare_best_vs_all [b, a] years = compare_best_vs_all [a, b] years"
  by (simp add: compare_best_vs_all_def)

text \<open>
  C3. Scenario A (BEV) returns manufacturing 15900, use phase 6291.0, disposal 1400 and
  total 23591.0; scenario B (ICEV-p, same distance, period and size) returns manufacturing
  8300, use phase 26910.0, disposal 350 and total 35560.0. Compared over 10 years, in
  either order, BEV is the best vehicle and the one pair, BEV against ICEV-p, has
  break-even year 5; year 0 is not a crossing, the curves start at 17300 for BEV and at
  8650 for ICEV-p.
\<close>

theorem scenario_C_break_even:
  "calculate_lifecycle ''BEV'' 15000 10 0.233 ''medium'' =
     Inr \<lparr>vehicle_type = ''BEV'', manufacturing = 15900, use_phase = 6291.0,
           disposal = 1400, total' = 23591.0, total_km = 150000, per_km = 157.3,
           greenwashing_flag = False, greenwashing_reason = None\<rparr>
   \<and> calculate_lifecycle ''ICEV-p'' 15000 10 0.233 ''medium'' =
     Inr \<lparr>vehicle_type = ''ICEV-p'', manufacturing = 8300, use_phase = 26910.0,
           disposal = 350, total' = 35560.0, total_km = 150000, per_km = 237.1,
           greenwashing_flag = False, greenwashing_reason = None\<rparr>
   \<and> compare_best_vs_all
       [projr (calculate_lifecycle ''BEV'' 15000 10 0.233 ''medium''),
        projr (calculate_lifecycle ''ICEV-p'' 15000 10 0.233 ''medium'')] 10 =
     Some \<lparr>cmp_best_vehicle = ''BEV'',
            years_range = [0, 1, 2, 3, 4, 5, 6, 7, 8, 9, 10],
            pairs =
              [\<lparr>year = Some 5, best_vehicle = ''BEV'', comparison_vehicle = ''ICEV-p'',
                yearly_best_cumulative =
                  [17300, 17929.1, 18558.2, 19187.3, 19816.4, 20445.5, 21074.6, 21703.7,
                   22332.8, 22961.9, 23591],
                yearly_comparison_cumulative =
                  [8650, 11341, 14032, 16723, 19414, 22105, 24796, 27487, 30178, 32869,
                   35560]\<rparr>]\<rparr>
   \<and> compare_best_vs_all
       [projr (calculate_lifecycle ''ICEV-p'' 15000 10 0.233 ''medium''),
        projr (calculate_lifecycle ''BEV'' 15000 10 0.233 ''medium'')] 10 =
     compare_best_vs_all
       [projr (calculate_lifecycle ''BEV'' 15000 10 0.233 ''medium''),
        projr (calculate_lifecycle ''ICEV-p'' 15000 10 0.233 ''medium'')] 10"
  unfolding scenario_A_result scenario_B_result sum.sel
  by (intro conjI refl scenario_C_compare compare_two_swap) simp

section \<open>The break-even year is the first crossing\<close>

lemma scan_years_Some:
  "scan_years i xs = Some k \<Longrightarrow>
     i \<le> k \<and> k - i < length xs \<and> fst (xs ! (k - i)) \<le> snd (xs ! (k - i))
     \<and> (\<forall>j < k - i. snd (xs ! j) < fst (xs ! j))"
proof (induction i xs rule: scan_years.induct)
  case (1 i)
  then show ?case by simp
next
  case (2 i b c rest)
  show ?case
  proof (cases "b \<le> c")
    case True
    with 2 show ?thesis by simp
  next
    case False
    with 2 have s: "scan_years (Suc i) rest = Some k" by simp
    from 2(1)[OF False s] have ih: "Suc i \<le> k" "k - Suc i < length rest"
      "fst (rest ! (k - Suc i)) \<le> snd (rest ! (k - Suc i))"
      "\<forall>j < k - Suc i. snd (rest ! j) < fst (rest ! j)" by auto
    from ih(1) have e: "k - i = Suc (k - Suc i)" by simp
    show ?thesis using ih False unfolding e
      by (auto simp: nth_Cons split: nat.splits)
  qed
qed

lemma scan_years_None:
  "scan_years i xs = None \<Longrightarrow> \<forall>j < length xs. snd (xs ! j) < fst (xs ! j)"
proof (induction i xs rule: scan_years.induct)
  case (1 i)
  then show ?case by simp
next
  case (2 i b c rest)
  then show ?case by (auto simp: nth_Cons split: if_splits nat.splits)
qed

lemma length_build_cumulative_curve:
  "length (build_cumulative_curve r years) = nat (years + 1)"
  by (simp add: build_cumulative_curve_def Let_def)

lemma find_break_even_year_Some:
  assumes "find_break_even_year bs cs = Some y" "length bs = length cs"
  shows "y < length bs \<and> bs ! y \<le> cs ! y \<and> (\<forall>y' < y. cs ! y' < bs ! y')"
  using scan_years_Some[of 0 "zip bs cs" y] assms
  by (auto simp: find_break_even_year_def)

lemma find_break_even_year_None:
  assumes "find_break_even_year bs cs = None" "length bs = length cs"
  shows "\<forall>y < length bs. cs ! y < bs ! y"
  using scan_years_None[of 0 "zip bs cs"] assms
  by (auto simp: find_break_even_year_def)

lemma compare_pairs_shape:
  assumes "compare_best_vs_all results years = Some cmp" "p \<in> set (pairs cmp)"
  shows "\<exists>other \<in> set (tl (sort_key total' results)).
           yearly_best_cumulative p = build_cumulative_curve (hd (sort_key total' results)) years
         \<and> yearly_comparison_cumulative p = build_cumulative_curve other years
         \<and> year p = find_break_even_year (yearly_best_cumulative p) (yearly_comparison_cumulative p)"
  using assms
  by (fastforce simp: compare_best_vs_all_def Let_def split: if_splits list.splits)

text \<open>
  C4. For every pair of a comparison that \<open>compare_best_vs_all\<close> returns, both curves have
  one entry for each year from 0 to \<open>years\<close>. If the pair has a year, the year is within
  the period, the best vehicle's curve is at or below the other curve at that year and
  strictly above it at every earlier year. If the pair has no year, the best vehicle's
  curve is strictly above the other curve at every year from 0 to \<open>years\<close>.
\<close>

theorem break_even_first_crossing:
  assumes "compare_best_vs_all results years = Some cmp" and "p \<in> set (pairs cmp)"
  shows "length (yearly_best_cumulative p) = nat (years + 1)
       \<and> length (yearly_comparison_cumulative p) = nat (years + 1)
       \<and> (case year p of
            Some y \<Rightarrow>
              int y \<le> years
              \<and> yearly_best_cumulative p ! y \<le> yearly_comparison_cumulative p ! y
              \<and> (\<forall>y' < y. yearly_best_cumulative p ! y' > yearly_comparison_cumulative p ! y')
          | None \<Rightarrow>
              (\<forall>y. int y \<le> years \<longrightarrow>
                 yearly_best_cumulative p ! y > yearly_comparison_cumulative p ! y))"
proof -
  from compare_pairs_shape[OF assms] obtain other where
    b: "yearly_best_cumulative p = build_cumulative_curve (hd (sort_key total' results)) years"
    and c: "yearly_comparison_cumulative p = build_cumulative_curve other years"
    and y: "year p = find_break_even_year (yearly_best_cumulative p) (yearly_comparison_cumulative p)"
    by blast
  have lb: "length (yearly_best_cumulative p) = nat (years + 1)"
    and lc: "length (yearly_comparison_cumulative p) = nat (years + 1)"
    by (simp_all add: b c length_build_cumulative_curve)
  show ?thesis
  proof (cases "year p")
    case None
    with y lb lc
      find_break_even_year_None[of "yearly_best_cumulative p" "yearly_comparison_cumulative p"]
    have "\<forall>y < nat (years + 1). yearly_comparison_cumulative p ! y < yearly_best_cumulative p ! y"
      by simp
    moreover have "\<And>y. int y \<le> years \<Longrightarrow> y < nat (years + 1)" by linarith
    ultimately show ?thesis using None lb lc by simp
  next
    case (Some k)
    with y lb lc
      find_break_even_year_Some[of "yearly_best_cumulative p" "yearly_comparison_cumulative p" k]
    have "k < nat (years + 1)"
      "yearly_best_cumulative p ! k \<le> yearly_comparison_cumulative p ! k"
      "\<forall>y' < k. yearly_comparison_cumulative p ! y' < yearly_best_cumulative p ! y'"
      by simp_all
    moreover from \<open>k < nat (years + 1)\<close> have "int k \<le> years" by linarith
    ultimately show ?thesis using Some lb lc by simp
  qed
qed

lemma scenario_C_fixture:
  "compare_best_vs_all [scenario_A, scenario_B] 10 = Some scenario_C_comparison"
  unfolding scenario_A_def scenario_B_def scenario_C_comparison_def scenario_C_pair_def
  by (rule scenario_C_compare)

theorem break_even_first_crossing_witness:
  "compare_best_vs_all [scenario_A, scenario_B] 10 = Some scenario_C_comparison
   \<and> scenario_C_pair \<in> set (pairs scenario_C_comparison)
   \<and> year scenario_C_pair = Some 5
   \<and> yearly_best_cumulative scenario_C_pair ! 5 \<le> yearly_comparison_cumulative scenario_C_pair ! 5
   \<and> yearly_best_cumulative scenario_C_pair ! 4 > yearly_comparison_cumulative scenario_C_pair ! 4
   \<and> yearly_best_cumulative scenario_C_pair ! 0 > yearly_comparison_cumulative scenario_C_pair ! 0"
proof -
  have h: "scenario_C_pair \<in> set (pairs scenario_C_comparison)"
    by (simp add: scenario_C_comparison_def)
  have y: "year scenario_C_pair = Some 5"
    by (simp add: scenario_C_pair_def)
  from break_even_first_crossing[OF scenario_C_fixture h]
  have "yearly_best_cumulative scenario_C_pair ! 5 \<le> yearly_comparison_cumulative scenario_C_pair ! 5"
    and "\<forall>y' < 5. yearly_best_cumulative scenario_C_pair ! y'
                  > yearly_comparison_cumulative scenario_C_pair ! y'"
    unfolding y by simp_all
  then show ?thesis
    using scenario_C_fixture h y by simp
qed

section \<open>The pairs of a comparison\<close>

lemma compare_many:
  assumes "2 \<le> length results"
  shows "\<exists>cmp. compare_best_vs_all results years = Some cmp
      \<and> length (pairs cmp) = length results - 1
      \<and> cmp_best_vehicle cmp = vehicle_type (hd (sort_key total' results))
      \<and> map best_vehicle (pairs cmp) =
          replicate (length results - 1) (vehicle_type (hd (sort_key total' results)))
      \<and> map comparison_vehicle (pairs cmp) = map vehicle_type (tl (sort_key total' results))"
proof -
  from assms have "length (sort_key total' results) = length results" by simp
  with assms obtain best others where s: "sort_key total' results = best # others"
    by (cases "sort_key total' results") auto
  then have "length others = length results - 1"
    by (metis length_sort length_tl list.sel(3))
  with assms s show ?thesis
    by (simp add: compare_best_vs_all_def Let_def comp_def map_replicate_const)
qed

text \<open>
  C5. The comparison of no result and of one result is absent. The comparison of \<open>N\<close>
  results, \<open>N\<close> at least 2, is present. Its best vehicle is the first of the results
  sorted by total, a stable sort that keeps every result and puts the totals in
  ascending order. It has \<open>N - 1\<close> pairs, each with that best vehicle, and their comparison
  vehicles are the other sorted results in their order, each once.
\<close>

theorem compare_best_vs_all_pairs:
  "compare_best_vs_all [] years = None
   \<and> compare_best_vs_all [r] years = None
   \<and> (2 \<le> length results \<longrightarrow>
        (\<exists>cmp. compare_best_vs_all results years = Some cmp
           \<and> length (pairs cmp) = length results - 1
           \<and> cmp_best_vehicle cmp = vehicle_type (hd (sort_key total' results))
           \<and> map best_vehicle (pairs cmp) =
               replicate (length results - 1) (vehicle_type (hd (sort_key total' results)))
           \<and> map comparison_vehicle (pairs cmp) =
               map vehicle_type (tl (sort_key total' results)))
        \<and> sorted (map total' (sort_key total' results))
        \<and> mset (sort_key total' results) = mset results)"
proof -
  have "compare_best_vs_all [] years = None" "compare_best_vs_all [r] years = None"
    by (simp_all add: compare_best_vs_all_def)
  moreover have "sorted (map total' (sort_key total' results))"
    "mset (sort_key total' results) = mset results"
    by simp_all
  ultimately show ?thesis using compare_many[of results years] by blast
qed

theorem compare_best_vs_all_pairs_witness:
  "2 \<le> length [scenario_B, scenario_A]
   \<and> compare_best_vs_all [scenario_B, scenario_A] 10 = Some scenario_C_comparison
   \<and> length (pairs scenario_C_comparison) = 1
   \<and> map comparison_vehicle (pairs scenario_C_comparison) = [''ICEV-p'']
   \<and> sort_key total' [scenario_B, scenario_A] = [scenario_A, scenario_B]"
proof -
  have s: "sort_key total' [scenario_B, scenario_A] = [scenario_A, scenario_B]"
    by (simp add: scenario_A_def scenario_B_def)
  have l: "2 \<le> length [scenario_B, scenario_A]" by simp
  from compare_best_vs_all_pairs[of 10 scenario_A "[scenario_B, scenario_A]"] l
  obtain cmp where c: "compare_best_vs_all [scenario_B, scenario_A] 10 = Some cmp"
    and n: "length (pairs cmp) = length [scenario_B, scenario_A] - 1"
    and m: "map comparison_vehicle (pairs cmp) =
              map vehicle_type (tl (sort_key total' [scenario_B, scenario_A]))"
    by blast
  have "compare_best_vs_all [scenario_B, scenario_A] 10 =
          compare_best_vs_all [scenario_A, scenario_B] 10"
    by (rule compare_two_swap) (simp add: scenario_A_def scenario_B_def)
  with c scenario_C_fixture have "cmp = scenario_C_comparison" by simp
  with c n m s l show ?thesis by (simp add: scenario_B_def)
qed

section \<open>The confidence of a recommendation\<close>




lemma recommend_zero_second_total:
  assumes "2 \<le> length results" "total' (sort_key total' results ! 1) = 0"
  shows "recommend_vehicle results = Inl ZeroDivisionError"
proof -
  from assms(1) have ne: "results \<noteq> []" by auto
  from assms(1) have l: "1 < length (sort_key total' results)" by simp
  show ?thesis
    using ne l assms(2) by (simp add: recommend_vehicle_def Let_def py_div_def)
qed




text \<open>The two results used above are the ones the calculation returns.\<close>

lemma hev_medium_result:
  "calculate_lifecycle ''HEV'' 15000 10 0.233 ''medium'' = Inr hev_medium"
  by (simp add: hev_medium_def engine_defs table_defs round_defs)

lemma phev_medium_result:
  "calculate_lifecycle ''PHEV'' 15000 10 0.233 ''medium'' = Inr phev_medium"
  by (simp add: phev_medium_def engine_defs table_defs round_defs)


section \<open>Errors of a recommendation\<close>

text \<open>
  C9. The empty input is rejected with the empty-input error. A non-empty input does not
  always give a result: for two results whose totals are 0, \<open>recommend_vehicle\<close> raises a
  division by zero, because the gap to the second-best total is divided by that total
  without a test. The division for the savings percentage is guarded: for one result with
  total 0 it is 0.
\<close>

theorem recommend_zero_totals_raise:
  "recommend_vehicle [zero_total ''BEV'', zero_total ''HEV''] = Inl ZeroDivisionError
   \<and> recommend_vehicle [] = Inl (ValueError ''No results to evaluate'')
   \<and> savings_vs_worst_pct (projr (recommend_vehicle [zero_total ''BEV''])) = 0"
  by (simp add: recommend_vehicle_def py_div_def zero_total_def round_defs)

section \<open>The greenwashing check\<close>

lemma fraction_not_both: "\<not> ((x::rat) < 0.05 \<and> 0.70 < x)"
  by simp

text \<open>
  C7. The flag is set with the misleading-label reason exactly when the operational
  fraction is below 0.05 and the total is above 15000. It is set with the grid-advocacy
  reason exactly when that does not hold, the total is not 0, the vehicle type is BEV and
  the operational fraction is above 0.70. The two conditions never hold together. For
  total 0 the flag is not set and there is no reason. A reason is present exactly when the
  flag is set, and it is one of the two texts.
\<close>

theorem greenwashing_rules:
  "((fst (check_greenwashing use_kg total_kg vt)
       \<and> (\<exists>a b c d. snd (check_greenwashing use_kg total_kg vt) = Some (MisleadingLabel a b c d)))
      \<longleftrightarrow> use_kg / total_kg < 0.05 \<and> total_kg > 15000)
   \<and> ((fst (check_greenwashing use_kg total_kg vt)
         \<and> snd (check_greenwashing use_kg total_kg vt) = Some GridAdvocacy)
      \<longleftrightarrow> \<not> (use_kg / total_kg < 0.05 \<and> total_kg > 15000)
          \<and> total_kg \<noteq> 0 \<and> vt = ''BEV'' \<and> use_kg / total_kg > 0.70)
   \<and> \<not> ((use_kg / total_kg < 0.05 \<and> total_kg > 15000)
         \<and> (vt = ''BEV'' \<and> use_kg / total_kg > 0.70))
   \<and> check_greenwashing use_kg 0 vt = (False, None)
   \<and> (snd (check_greenwashing use_kg total_kg vt) \<noteq> None
        \<longleftrightarrow> fst (check_greenwashing use_kg total_kg vt))
   \<and> (snd (check_greenwashing use_kg total_kg vt) \<in>
        {None, Some GridAdvocacy,
         Some (MisleadingLabel vt use_kg (use_kg / total_kg * 100) total_kg)})"
proof -
  have excl: "\<not> ((use_kg / total_kg < 0.05 \<and> total_kg > 15000)
         \<and> (vt = ''BEV'' \<and> use_kg / total_kg > 0.70))"
    using fraction_not_both[of "use_kg / total_kg"] by blast
  have rest: "((fst (check_greenwashing use_kg total_kg vt)
       \<and> (\<exists>a b c d. snd (check_greenwashing use_kg total_kg vt) = Some (MisleadingLabel a b c d)))
      \<longleftrightarrow> use_kg / total_kg < 0.05 \<and> total_kg > 15000)"
    "((fst (check_greenwashing use_kg total_kg vt)
         \<and> snd (check_greenwashing use_kg total_kg vt) = Some GridAdvocacy)
      \<longleftrightarrow> \<not> (use_kg / total_kg < 0.05 \<and> total_kg > 15000)
          \<and> total_kg \<noteq> 0 \<and> vt = ''BEV'' \<and> use_kg / total_kg > 0.70)"
    "check_greenwashing use_kg 0 vt = (False, None)"
    "(snd (check_greenwashing use_kg total_kg vt) \<noteq> None
        \<longleftrightarrow> fst (check_greenwashing use_kg total_kg vt))"
    "(snd (check_greenwashing use_kg total_kg vt) \<in>
        {None, Some GridAdvocacy,
         Some (MisleadingLabel vt use_kg (use_kg / total_kg * 100) total_kg)})"
    by (auto simp add: check_greenwashing_def GREENWASHING_OPERATIONAL_THRESHOLD_PCT_def
          GREENWASHING_TOTAL_THRESHOLD_KG_def Let_def)
  from excl rest show ?thesis by blast
qed

section \<open>The unknown fuel type error\<close>

text \<open>
  C10. The calculation never fails with the unknown fuel type error, and for a built-in
  vehicle type and one of the three sizes it returns a result. The fuel types of the five
  built-in entries are electricity, hybrid_petrol, hybrid_petrol, petrol and diesel. The
  use-phase computation fails exactly for a parameter entry whose fuel type is none of
  electricity, petrol, diesel and hybrid_petrol, and then with the unknown fuel type
  error.
\<close>

theorem unknown_fuel_type_unreachable:
  "calculate_lifecycle vt annual_km years grid_factor vehicle_size \<noteq> Inl (ValueError msg)
   \<and> (vt \<in> {''BEV'', ''PHEV'', ''HEV'', ''ICEV-p'', ''ICEV-d''}
        \<and> vehicle_size \<in> {''small'', ''medium'', ''large''}
      \<longrightarrow> (\<exists>r. calculate_lifecycle vt annual_km years grid_factor vehicle_size = Inr r))
   \<and> map (\<lambda>(k, p). (k, fuel_type p)) VEHICLE_PARAMS =
       [(''BEV'', ''electricity''), (''PHEV'', ''hybrid_petrol''), (''HEV'', ''hybrid_petrol''),
        (''ICEV-p'', ''petrol''), (''ICEV-d'', ''diesel'')]
   \<and> (isl (calculate_use_phase params tkm grid_factor size_mult)
        \<longleftrightarrow> fuel_type params \<notin> {''electricity'', ''petrol'', ''diesel'', ''hybrid_petrol''})
   \<and> (fuel_type params \<notin> {''electricity'', ''petrol'', ''diesel'', ''hybrid_petrol''}
      \<longrightarrow> calculate_use_phase params tkm grid_factor size_mult =
            Inl (ValueError (''Unknown fuel type: '' @ fuel_type params)))"
proof (intro conjI impI)
  show "calculate_lifecycle vt annual_km years grid_factor vehicle_size \<noteq> Inl (ValueError msg)"
    by (simp add: calculate_lifecycle_def lookup_def VEHICLE_PARAMS_def SIZE_MULTIPLIERS_def
          calculate_use_phase_def FUEL_EMISSION_FACTORS_def Let_def split: sum.splits)
next
  assume "vt \<in> {''BEV'', ''PHEV'', ''HEV'', ''ICEV-p'', ''ICEV-d''}
        \<and> vehicle_size \<in> {''small'', ''medium'', ''large''}"
  then show "\<exists>r. calculate_lifecycle vt annual_km years grid_factor vehicle_size = Inr r"
    by (auto simp add: calculate_lifecycle_def lookup_def VEHICLE_PARAMS_def
          SIZE_MULTIPLIERS_def calculate_use_phase_def FUEL_EMISSION_FACTORS_def Let_def)
next
  show "map (\<lambda>(k, p). (k, fuel_type p)) VEHICLE_PARAMS =
       [(''BEV'', ''electricity''), (''PHEV'', ''hybrid_petrol''), (''HEV'', ''hybrid_petrol''),
        (''ICEV-p'', ''petrol''), (''ICEV-d'', ''diesel'')]"
    by (simp add: VEHICLE_PARAMS_def)
next
  show "isl (calculate_use_phase params tkm grid_factor size_mult)
        \<longleftrightarrow> fuel_type params \<notin> {''electricity'', ''petrol'', ''diesel'', ''hybrid_petrol''}"
    by (simp add: calculate_use_phase_def lookup_def FUEL_EMISSION_FACTORS_def Let_def)
next
  assume "fuel_type params \<notin> {''electricity'', ''petrol'', ''diesel'', ''hybrid_petrol''}"
  then show "calculate_use_phase params tkm grid_factor size_mult =
            Inl (ValueError (''Unknown fuel type: '' @ fuel_type params))"
    by (simp add: calculate_use_phase_def Let_def)
qed

theorem unknown_fuel_type_unreachable_witness:
  "''HEV'' \<in> {''BEV'', ''PHEV'', ''HEV'', ''ICEV-p'', ''ICEV-d''}
   \<and> ''small'' \<in> {''small'', ''medium'', ''large''}
   \<and> (\<exists>r. calculate_lifecycle ''HEV'' 12000 8 0.4 ''small'' = Inr r)
   \<and> ''hydrogen'' \<notin> {''electricity'', ''petrol'', ''diesel'', ''hybrid_petrol''}
   \<and> calculate_use_phase
        \<lparr>glider_manufacturing_kg = 7000, powertrain_manufacturing_kg = 1000,
         battery_manufacturing_per_kwh = 0, battery_capacity_kwh = 0,
         energy_consumption_per_100km = 1, fuel_type = ''hydrogen'', disposal_kg = 300,
         battery_eol_factor = 0\<rparr> 96000 0.4 0.85
      = Inl (ValueError ''Unknown fuel type: hydrogen'')"
  using unknown_fuel_type_unreachable[of "''HEV''" 12000 8 "0.4" "''small''" "''''"
      "\<lparr>glider_manufacturing_kg = 7000, powertrain_manufacturing_kg = 1000,
         battery_manufacturing_per_kwh = 0, battery_capacity_kwh = 0,
         energy_consumption_per_100km = 1, fuel_type = ''hydrogen'', disposal_kg = 300,
         battery_eol_factor = 0\<rparr>" 96000 "0.85"]
  by simp

section \<open>The total and the sum of its parts\<close>








text \<open>
  The bound of 0.1 kg is attained: for HEV at size small, 12000 km a year, 10 years and
  grid factor 0.4, the total is 18929.0 and the three parts add up to 18928.9.
\<close>

lemma rounding_tolerance_attained:
  "calculate_lifecycle ''HEV'' 12000 10 0.4 ''small'' =
     Inr \<lparr>vehicle_type = ''HEV'', manufacturing = 7076.2, use_phase = 11589.2,
           disposal = 263.5, total' = 18929.0, total_km = 120000, per_km = 157.7,
           greenwashing_flag = False, greenwashing_reason = None\<rparr>"
  by (simp add: engine_defs table_defs round_defs)

end
